theory Spec2Isabelle
  imports Complex_Main "HOL-Library.List_Lexorder" "HOL-Library.Char_ord"
begin

section \<open>Errors\<close>

text \<open>
  The Python exceptions that the modelled functions can raise. A function that can
  raise returns \<open>error + 'a\<close>, with \<open>Inl\<close> for the exception.
\<close>

datatype error =
    ValueError
  | KeyError
  | IndexError
  | AttributeError
  | OverflowError
  | FitError

section \<open>Month-code table\<close>

text \<open>
  Python's \<open>range(lo, hi, step)\<close> on integers. A zero step raises \<open>ValueError\<close>;
  otherwise the list has \<open>py_range_len lo hi step\<close> elements, the \<open>k\<close>-th being
  \<open>lo + k * step\<close>: the elements from \<open>lo\<close> in steps of \<open>step\<close> that lie strictly before
  \<open>hi\<close> in the step's direction.
\<close>

definition py_range_len :: "int \<Rightarrow> int \<Rightarrow> int \<Rightarrow> nat" where
  "py_range_len lo hi step =
     (if 0 < step then (if lo < hi then nat ((hi - lo - 1) div step + 1) else 0)
      else if step < 0 then (if hi < lo then nat ((lo - hi - 1) div (- step) + 1) else 0)
      else 0)"

definition py_range :: "int \<Rightarrow> int \<Rightarrow> int \<Rightarrow> error + int list" where
  "py_range lo hi step =
     (if step = 0 then Inl ValueError
      else Inr (map (\<lambda>k. lo + int k * step) [0..<py_range_len lo hi step]))"

text \<open>\<open>calendar.month_name\<close>: index 0 is the empty string, 1 to 12 the English names.\<close>

definition calendar_month_name :: "string list" where
  "calendar_month_name =
     ['''', ''January'', ''February'', ''March'', ''April'', ''May'', ''June'', ''July'',
      ''August'', ''September'', ''October'', ''November'', ''December'']"

text \<open>The first loop of \<open>create_month_codes_dict\<close>: the names at indices 1 to 12.\<close>

definition month_names :: "string list" where
  "month_names = map (\<lambda>each_month. calendar_month_name ! each_month) [1..<13]"

text \<open>
  The second loop: \<open>month_codes[month] = code\<close> for each pair of the zip, which stops at
  the shorter of the two lists.
\<close>

definition fill_month_codes :: "(string \<times> int) list \<Rightarrow> (string \<rightharpoonup> int)" where
  "fill_month_codes pairs = fold (\<lambda>(month, code) month_codes. month_codes(month \<mapsto> code)) pairs Map.empty"

definition create_month_codes_dict :: "int \<Rightarrow> int \<Rightarrow> int \<Rightarrow> error + (string \<rightharpoonup> int)" where
  "create_month_codes_dict jan_code dec_code diff =
     (case py_range jan_code dec_code diff of
        Inl e \<Rightarrow> Inl e
      | Inr codes \<Rightarrow> Inr (fill_month_codes (zip month_names codes)))"

section \<open>Stack index\<close>

text \<open>
  Python integers are unbounded, so \<open>int\<close> models them. The script applies the function
  to the whole \<open>year\<close> column at once, which computes it for each row.
\<close>

definition get_stackID :: "int \<Rightarrow> int \<Rightarrow> int" where
  "get_stackID year month_code = year * 12 - month_code"


section \<open>Raster point sampler\<close>

text \<open>
  The raster source as the sampler sees it through GDAL. Floating-point numbers are
  idealised as reals (no rounding, no NaN or infinity in the inputs). The geotransform
  always has six coefficients, read by the sampler at indices 0, 1, 3 and 5. Each band
  has its packed array (a list of rows), its offset and its scale.
\<close>

record geotransform =
  gt0 :: real
  gt1 :: real
  gt2 :: real
  gt3 :: real
  gt4 :: real
  gt5 :: real

record band =
  ReadAsArray :: "int list list"
  GetOffset :: real
  GetScale :: real

record raster =
  GetGeoTransform :: geotransform
  raster_bands :: "band list"

text \<open>
  \<open>GetRasterBand(k)\<close> counts bands from 1 and gives \<open>None\<close> for any other index; the
  method call on \<open>None\<close> that follows then raises \<open>AttributeError\<close>.
\<close>

definition GetRasterBand :: "raster \<Rightarrow> int \<Rightarrow> band option" where
  "GetRasterBand open_file k =
     (if 1 \<le> k \<and> k \<le> int (length (raster_bands open_file))
      then Some (raster_bands open_file ! nat (k - 1)) else None)"

text \<open>Python's \<open>int()\<close> on a float: truncation toward zero.\<close>

definition py_int :: "real \<Rightarrow> int" where
  "py_int v = (if 0 \<le> v then \<lfloor>v\<rfloor> else - \<lfloor>- v\<rfloor>)"

text \<open>
  \<open>int((c - origin) / pixel)\<close> on a numpy float: a zero pixel size gives NaN
  (\<open>ValueError\<close> in \<open>int()\<close>) when the numerator is zero too, and infinity
  (\<open>OverflowError\<close>) otherwise.
\<close>

definition pixel_index :: "real \<Rightarrow> real \<Rightarrow> real \<Rightarrow> error + int" where
  "pixel_index c origin pixel =
     (if pixel = 0 then (if c - origin = 0 then Inl ValueError else Inl OverflowError)
      else Inr (py_int ((c - origin) / pixel)))"

text \<open>
  Indexing one axis of a numpy array with an integer: an index from \<open>-n\<close> up to \<open>-1\<close>
  counts from the end, an index outside \<open>-n \<dots> n - 1\<close> raises \<open>IndexError\<close>.
\<close>

definition np_index :: "'a list \<Rightarrow> int \<Rightarrow> error + 'a" where
  "np_index axis i =
     (if 0 \<le> i \<and> i < int (length axis) then Inr (axis ! nat i)
      else if - int (length axis) \<le> i \<and> i < 0 then Inr (axis ! nat (int (length axis) + i))
      else Inl IndexError)"

text \<open>\<open>band_array[y, x]\<close>: the row first, then the column.\<close>

definition np_index2 :: "'a list list \<Rightarrow> int \<Rightarrow> int \<Rightarrow> error + 'a" where
  "np_index2 band_array y x =
     (case np_index band_array y of
        Inl e \<Rightarrow> Inl e
      | Inr row \<Rightarrow> np_index row x)"

text \<open>The body of the loop of \<open>get_temps_list\<close> for one coordinate pair and one band index.\<close>

definition unpacked_temp :: "raster \<Rightarrow> real \<times> real \<Rightarrow> int \<Rightarrow> error + real" where
  "unpacked_temp open_file coordinate band_index =
     (let single_band = GetRasterBand open_file band_index;
          geotrans_raster = GetGeoTransform open_file
      in case pixel_index (fst coordinate) (gt0 geotrans_raster) (gt1 geotrans_raster) of
           Inl e \<Rightarrow> Inl e
         | Inr x \<Rightarrow>
        (case pixel_index (snd coordinate) (gt3 geotrans_raster) (gt5 geotrans_raster) of
           Inl e \<Rightarrow> Inl e
         | Inr y \<Rightarrow>
        (case single_band of
           None \<Rightarrow> Inl AttributeError
         | Some b \<Rightarrow>
        (case np_index2 (ReadAsArray b) y x of
           Inl e \<Rightarrow> Inl e
         | Inr packed_temp \<Rightarrow> Inr (GetOffset b + real_of_int packed_temp * GetScale b)))))"

text \<open>
  The loop runs over the positions of \<open>bands\<close>; reading \<open>coordinates\<close> at a position it
  does not have raises \<open>IndexError\<close>, and coordinates beyond the last band are not read.
\<close>

fun temps_loop :: "raster \<Rightarrow> (real \<times> real) list \<Rightarrow> int list \<Rightarrow> real list \<Rightarrow> error + real list" where
  "temps_loop open_file coordinates [] all_temps = Inr all_temps"
| "temps_loop open_file [] (b # bands) all_temps = Inl IndexError"
| "temps_loop open_file (c # coordinates) (b # bands) all_temps =
     (case unpacked_temp open_file c b of
        Inl e \<Rightarrow> Inl e
      | Inr t \<Rightarrow> temps_loop open_file coordinates bands (all_temps @ [t]))"

definition get_temps_list :: "raster \<Rightarrow> (real \<times> real) list \<Rightarrow> int list \<Rightarrow> error + real list" where
  "get_temps_list open_file coordinates bands = temps_loop open_file coordinates bands []"

text \<open>
  The lookup as the specification words it: column and row by \<open>floor\<close>, the band array
  read at \<open>[row, col]\<close>, the value decoded as \<open>offset + packed_value * scale\<close>.
\<close>

definition spec_col :: "geotransform \<Rightarrow> real \<Rightarrow> int" where
  "spec_col g x = \<lfloor>(x - gt0 g) / gt1 g\<rfloor>"

definition spec_row :: "geotransform \<Rightarrow> real \<Rightarrow> int" where
  "spec_row g y = \<lfloor>(y - gt3 g) / gt5 g\<rfloor>"

definition spec_decoded_value :: "raster \<Rightarrow> real \<times> real \<Rightarrow> int \<Rightarrow> error + real" where
  "spec_decoded_value open_file coordinate band_index =
     (case GetRasterBand open_file band_index of
        None \<Rightarrow> Inl AttributeError
      | Some b \<Rightarrow>
     (case np_index2 (ReadAsArray b)
             (spec_row (GetGeoTransform open_file) (snd coordinate))
             (spec_col (GetGeoTransform open_file) (fst coordinate)) of
        Inl e \<Rightarrow> Inl e
      | Inr packed_value \<Rightarrow> Inr (GetOffset b + real_of_int packed_value * GetScale b)))"

text \<open>
  A coordinate pair and band index are in range for the raster when the band exists, the
  pixel sizes are not zero, and the computed row and column lie inside the band array.
\<close>

definition in_range :: "raster \<Rightarrow> real \<times> real \<Rightarrow> int \<Rightarrow> bool" where
  "in_range open_file coordinate band_index =
     (let g = GetGeoTransform open_file
      in gt1 g \<noteq> 0 \<and> gt5 g \<noteq> 0 \<and>
         (case GetRasterBand open_file band_index of
            None \<Rightarrow> False
          | Some b \<Rightarrow>
              (let x = py_int ((fst coordinate - gt0 g) / gt1 g);
                   y = py_int ((snd coordinate - gt3 g) / gt5 g)
               in 0 \<le> y \<and> y < int (length (ReadAsArray b)) \<and>
                  0 \<le> x \<and> x < int (length (ReadAsArray b ! nat y)))))"

section \<open>Specimen records and data frames\<close>

text \<open>
  One row of the input table, with the columns the scripts read. A data frame is the
  list of its rows. The scripts add the columns \<open>stackID_july\<close> and \<open>july_temps\<close>.
\<close>

record specimen =
  row_index :: int
  clean_genus_species :: string
  class_col :: string
  year :: int
  longitude :: real
  decimallatitude :: real
  mass :: real

record specimen_stack = specimen +
  stackID_july :: int

record specimen_temp = specimen_stack +
  july_temps :: real

definition add_stackID_july :: "specimen \<Rightarrow> int \<Rightarrow> specimen_stack" where
  "add_stackID_july r s =
     \<lparr>row_index = row_index r, clean_genus_species = clean_genus_species r,
      class_col = class_col r, year = year r, longitude = longitude r,
      decimallatitude = decimallatitude r, mass = mass r, stackID_july = s\<rparr>"

definition add_july_temps :: "specimen_stack \<Rightarrow> real \<Rightarrow> specimen_temp" where
  "add_july_temps r t =
     \<lparr>row_index = row_index r, clean_genus_species = clean_genus_species r,
      class_col = class_col r, year = year r, longitude = longitude r,
      decimallatitude = decimallatitude r, mass = mass r, stackID_july = stackID_july r,
      july_temps = t\<rparr>"

text \<open>
  \<open>drop_duplicates()\<close> and \<open>unique()\<close>: the first occurrence of each value, in order of
  appearance.
\<close>

fun drop_duplicates :: "'a list \<Rightarrow> 'a list" where
  "drop_duplicates [] = []"
| "drop_duplicates (x # xs) = x # drop_duplicates (filter (\<lambda>y. y \<noteq> x) xs)"

text \<open>
  \<open>groupby(col)\<close>: the distinct keys in ascending order, each with the rows that carry
  it, in their order in the frame.
\<close>

definition groupby :: "('r \<Rightarrow> 'k::linorder) \<Rightarrow> 'r list \<Rightarrow> ('k \<times> 'r list) list" where
  "groupby col dataframe =
     map (\<lambda>k. (k, filter (\<lambda>r. col r = k) dataframe)) (sort (drop_duplicates (map col dataframe)))"

section \<open>Species filter\<close>

definition insufficient_species ::
  "('a specimen_scheme) list \<Rightarrow> ('a specimen_scheme \<Rightarrow> 'k::linorder) \<Rightarrow> 'k list" where
  "insufficient_species dataframe species_col =
     map fst (filter (\<lambda>(species, species_data).
                        length (drop_duplicates (map row_index species_data)) < 30)
                (groupby species_col dataframe))"

definition remove_species ::
  "('a specimen_scheme) list \<Rightarrow> ('a specimen_scheme \<Rightarrow> 'k::linorder) \<Rightarrow> ('a specimen_scheme) list" where
  "remove_species dataframe species_col =
     filter (\<lambda>r. (species_col r \<in> set (insufficient_species dataframe species_col)) = False)
       dataframe"

text \<open>
  The distinct row-index count of the group of a species label, in the words of the
  specification.
\<close>

definition distinct_individuals ::
  "('a specimen_scheme) list \<Rightarrow> ('a specimen_scheme \<Rightarrow> 'k) \<Rightarrow> 'k \<Rightarrow> nat" where
  "distinct_individuals dataframe species_col s =
     card (row_index ` {r \<in> set dataframe. species_col r = s})"


section \<open>The script: stack index, temperature lookup, filters\<close>

text \<open>The columns of \<open>temp_lookup\<close>: longitude, latitude and stack index.\<close>

definition lookup_key :: "'a specimen_stack_scheme \<Rightarrow> real \<times> real \<times> int" where
  "lookup_key r = (longitude r, decimallatitude r, stackID_july r)"

definition temp_lookup_keys :: "specimen_stack list \<Rightarrow> (real \<times> real \<times> int) list" where
  "temp_lookup_keys individual_data = drop_duplicates (map lookup_key individual_data)"

text \<open>
  \<open>individual_data.merge(temp_lookup)\<close>: the inner join on the three shared columns, in
  the order of the left frame; a row of \<open>temp_lookup\<close> is its key and its temperature.
\<close>

definition merge :: "specimen_stack list \<Rightarrow> ((real \<times> real \<times> int) \<times> real) list \<Rightarrow> specimen_temp list" where
  "merge individual_data temp_lookup =
     concat (map (\<lambda>r. map (\<lambda>l. add_july_temps r (snd l))
                          (filter (\<lambda>l. fst l = lookup_key r) temp_lookup))
                 individual_data)"

text \<open>
  The script up to the merge. Assigning the list of temperatures as a column raises
  \<open>ValueError\<close> when its length is not the frame's.
\<close>

definition temp_data :: "raster \<Rightarrow> specimen list \<Rightarrow> error + specimen_temp list" where
  "temp_data open_file individual_data =
     (case create_month_codes_dict 22799 22787 (- 1) of
        Inl e \<Rightarrow> Inl e
      | Inr month_codes \<Rightarrow>
     (case month_codes ''July'' of
        None \<Rightarrow> Inl KeyError
      | Some july \<Rightarrow>
     (let with_stackID = map (\<lambda>r. add_stackID_july r (get_stackID (year r) july)) individual_data;
          temp_lookup = temp_lookup_keys with_stackID
      in case get_temps_list open_file (map (\<lambda>k. (fst k, fst (snd k))) temp_lookup)
                (map (\<lambda>k. snd (snd k)) temp_lookup) of
           Inl e \<Rightarrow> Inl e
         | Inr temps \<Rightarrow>
             if length temps \<noteq> length temp_lookup then Inl ValueError
             else Inr (merge with_stackID (zip temp_lookup temps)))))"

text \<open>The two filters that follow: the missing-data sentinel, then the species filter.\<close>

definition stats_data :: "raster \<Rightarrow> specimen list \<Rightarrow> error + specimen_temp list" where
  "stats_data open_file individual_data =
     (case temp_data open_file individual_data of
        Inl e \<Rightarrow> Inl e
      | Inr merged \<Rightarrow>
          Inr (remove_species (filter (\<lambda>r. july_temps r < 3276) merged) clean_genus_species))"

section \<open>Per-species regression loop\<close>

text \<open>
  The least-squares fit is the statistics library's; the loop is modelled over any fit
  function \<open>ols\<close>, which takes the (predictor, mass) points and returns the fit's
  \<open>rsquared\<close> and its parameters (intercept, slope), or raises. Plotting is left out.
\<close>

record ols_results =
  rsquared :: real
  params :: "real \<times> real"

record regression_summary =
  genus_species :: string
  sp_class :: string
  individuals :: nat
  hemisphere :: string
  temp_r_squared :: real
  temp_slope :: real
  lat_r_squared :: real
  lat_slope :: real

definition mean :: "real list \<Rightarrow> real" where
  "mean xs = sum_list xs / real (length xs)"

text \<open>The body of the loop of \<open>lin_reg\<close> for one species group.\<close>

definition species_summary ::
  "((real \<times> real) list \<Rightarrow> error + ols_results) \<Rightarrow> string \<Rightarrow> specimen_temp list
     \<Rightarrow> error + regression_summary" where
  "species_summary ols species species_data =
     (case drop_duplicates (map class_col species_data) of
        [] \<Rightarrow> Inl IndexError
      | c # _ \<Rightarrow>
     (case ols (map (\<lambda>r. (july_temps r, mass r)) species_data) of
        Inl e \<Rightarrow> Inl e
      | Inr temp_linreg \<Rightarrow>
     (let hemi = (if mean (map decimallatitude species_data) < 0 then ''south'' else ''north'')
      in case ols (map (\<lambda>r. (\<bar>decimallatitude r\<bar>, mass r)) species_data) of
           Inl e \<Rightarrow> Inl e
         | Inr lat_linreg \<Rightarrow>
             Inr \<lparr>genus_species = species, sp_class = c,
                  individuals = length (drop_duplicates (map row_index species_data)),
                  hemisphere = hemi,
                  temp_r_squared = rsquared temp_linreg, temp_slope = snd (params temp_linreg),
                  lat_r_squared = rsquared lat_linreg, lat_slope = snd (params lat_linreg)\<rparr>)))"

fun lin_reg_loop ::
  "((real \<times> real) list \<Rightarrow> error + ols_results) \<Rightarrow> (string \<times> specimen_temp list) list
     \<Rightarrow> regression_summary list \<Rightarrow> error + regression_summary list" where
  "lin_reg_loop ols [] stats_list = Inr stats_list"
| "lin_reg_loop ols ((species, species_data) # groups) stats_list =
     (case species_summary ols species species_data of
        Inl e \<Rightarrow> Inl e
      | Inr s \<Rightarrow> lin_reg_loop ols groups (stats_list @ [s]))"

definition lin_reg ::
  "((real \<times> real) list \<Rightarrow> error + ols_results) \<Rightarrow> specimen_temp list
     \<Rightarrow> error + regression_summary list" where
  "lin_reg ols dataset = lin_reg_loop ols (groupby clean_genus_species dataset) []"


section \<open>Example inputs\<close>

text \<open>
  A raster of two rows and two columns with its origin at the top left corner \<open>(0, 2)\<close>,
  pixels of width 1 and height \<open>-1\<close>, and seven bands that differ in their last cell; the
  last cell of band 7 decodes to 32768, above the missing-data sentinel.
\<close>

definition example_band :: "int \<Rightarrow> band" where
  "example_band d =
     \<lparr>ReadAsArray = [[10, 20], [30, 40 + d]], GetOffset = 1, GetScale = 1 / 2\<rparr>"

definition example_raster :: raster where
  "example_raster =
     \<lparr>GetGeoTransform = \<lparr>gt0 = 0, gt1 = 1, gt2 = 0, gt3 = 2, gt4 = 0, gt5 = - 1\<rparr>,
      raster_bands = map example_band [0, 2, 4, 6, 8, 10, 65494]\<rparr>"

text \<open>
  Specimens collected in 1900 at the first cell of the example raster, numbered by their
  row index, and a frame of 29 individuals of one species and 30 of another.
\<close>

definition example_specimen :: "string \<Rightarrow> nat \<Rightarrow> specimen" where
  "example_specimen s i =
     \<lparr>row_index = int i, clean_genus_species = s, class_col = ''Aves'', year = 1900,
      longitude = 1 / 2, decimallatitude = 3 / 2, mass = 10 + real i\<rparr>"

definition example_frame :: "specimen list" where
  "example_frame =
     map (example_specimen ''Parus major'') [0..<29] @
     map (example_specimen ''Sitta europaea'') [29..<59]"

text \<open>
  A specimen in the last cell of the raster, where band 7 holds the sentinel, and a frame
  of 30 individuals of one species in the first cell followed by that specimen.
\<close>

definition example_missing :: specimen where
  "example_missing =
     \<lparr>row_index = 30, clean_genus_species = ''Parus major'', class_col = ''Aves'', year = 1900,
      longitude = 3 / 2, decimallatitude = 1 / 2, mass = 12\<rparr>"

definition example_individual_data :: "specimen list" where
  "example_individual_data = map (example_specimen ''Parus major'') [0..<30] @ [example_missing]"

text \<open>The same 30 individuals with their stack index 7 and their sampled temperature 6.\<close>

definition example_stats_data :: "specimen_temp list" where
  "example_stats_data =
     map (\<lambda>i. add_july_temps (add_stackID_july (example_specimen ''Parus major'' i) 7) 6) [0..<30]"

text \<open>
  Two stand-ins for the fit, for the two ways the library can behave on a group: one
  that returns a fixed result for any points, one that raises for any points.
\<close>

definition example_fit :: ols_results where
  "example_fit = \<lparr>rsquared = 0, params = (10, 0)\<rparr>"

definition ols_returns :: "(real \<times> real) list \<Rightarrow> error + ols_results" where
  "ols_returns points = Inr example_fit"

definition ols_raises :: "(real \<times> real) list \<Rightarrow> error + ols_results" where
  "ols_raises points = Inl FitError"

section \<open>Properties of the month-code table\<close>
lemma month_names_eq: "month_names = [''January'', ''February'', ''March'', ''April'', ''May'', ''June'', ''July'',
      ''August'', ''September'', ''October'', ''November'', ''December'']"
  by (simp add: month_names_def calendar_month_name_def upt_rec)

lemma length_month_names: "length month_names = 12"
  by (simp add: month_names_eq)

lemma distinct_month_names: "distinct month_names"
  by (simp add: month_names_eq)

lemma fold_update_other:
  "k \<notin> fst ` set kvs \<Longrightarrow> fold (\<lambda>(k, v) m. m(k \<mapsto> v)) kvs m k = m k"
  by (induction kvs arbitrary: m) auto

lemma fold_update_dom:
  "dom (fold (\<lambda>(k, v) m. m(k \<mapsto> v)) kvs m) = dom m \<union> fst ` set kvs"
  by (induction kvs arbitrary: m) auto

lemma fold_update_member:
  "distinct (map fst kvs) \<Longrightarrow> (k, v) \<in> set kvs \<Longrightarrow> fold (\<lambda>(k, v) m. m(k \<mapsto> v)) kvs m k = Some v"
proof (induction kvs arbitrary: m)
  case Nil
  then show ?case by simp
next
  case (Cons p kvs)
  show ?case
  proof (cases "p = (k, v)")
    case True
    with Cons.prems have "k \<notin> fst ` set kvs" by auto
    from fold_update_other [OF this, of "m(k \<mapsto> v)"] True show ?thesis by (simp del: fun_upd_apply add: fun_upd_same)
  next
    case False
    with Cons.prems have "(k, v) \<in> set kvs" and "distinct (map fst kvs)" by auto
    with Cons.IH show ?thesis by simp
  qed
qed

lemma fill_month_codes_dom:
  "dom (fill_month_codes (zip ks vs)) = set (take (length vs) ks)"
proof -
  have "fst ` set (zip ks vs) = set (map fst (zip ks vs))" by simp
  also have "\<dots> = set (take (length vs) ks)"
    by (cases "length ks \<le> length vs") (simp_all add: map_fst_zip_take min_def)
  finally show ?thesis by (simp add: fill_month_codes_def fold_update_dom)
qed

lemma fill_month_codes_nth:
  assumes "distinct ks" and "i < length ks" and "i < length vs"
  shows "fill_month_codes (zip ks vs) (ks ! i) = Some (vs ! i)"
proof -
  have "distinct (map fst (zip ks vs))"
    using assms(1) by (simp add: map_fst_zip_take)
  moreover have "(ks ! i, vs ! i) \<in> set (zip ks vs)"
    using assms(2,3) by (auto simp: set_zip)
  ultimately show ?thesis
    unfolding fill_month_codes_def by (rule fold_update_member)
qed

lemma length_py_range: "py_range lo hi step = Inr codes \<Longrightarrow> length codes = py_range_len lo hi step"
  by (auto simp: py_range_def split: if_splits)

lemma nth_py_range:
  "py_range lo hi step = Inr codes \<Longrightarrow> k < py_range_len lo hi step \<Longrightarrow> codes ! k = lo + int k * step"
  by (auto simp: py_range_def split: if_splits)

lemma le_div_pos_iff: "0 < (b::int) \<Longrightarrow> (k \<le> a div b) = (k * b \<le> a)"
proof
  assume b: "0 < b" and "k \<le> a div b"
  then have "k * b \<le> (a div b) * b" by (simp add: mult_right_mono)
  also have "\<dots> \<le> a"
  proof -
    have "a div b * b + a mod b = a" by simp
    moreover have "0 \<le> a mod b" using b by simp
    ultimately show ?thesis by linarith
  qed
  finally show "k * b \<le> a" .
next
  assume b: "0 < b" and "k * b \<le> a"
  then show "k \<le> a div b" using zdiv_mono1 [of "k * b" a b] by simp
qed

lemma py_range_len_iff:
  assumes "step \<noteq> 0"
  shows "(k < py_range_len lo hi step) = (if 0 < step then lo + int k * step < hi else hi < lo + int k * step)"
proof (cases "0 < step")
  case True
  show ?thesis
  proof (cases "lo < hi")
    case lt: True
    have "0 \<le> (hi - lo - 1) div step" using True lt by (simp add: pos_imp_zdiv_nonneg_iff)
    then have "(k < py_range_len lo hi step) = (int k \<le> (hi - lo - 1) div step)"
      using True lt by (simp add: py_range_len_def) linarith
    also have "\<dots> = (int k * step \<le> hi - lo - 1)" using True by (rule le_div_pos_iff)
    finally show ?thesis using True by auto
  next
    case ge: False
    have "0 \<le> int k * step" using True by simp
    with ge have "\<not> lo + int k * step < hi" by linarith
    with ge True show ?thesis by (simp add: py_range_len_def)
  qed
next
  case False
  with assms have neg: "step < 0" by simp
  show ?thesis
  proof (cases "hi < lo")
    case lt: True
    have "0 \<le> (lo - hi - 1) div (- step)" using neg lt by (simp add: pos_imp_zdiv_nonneg_iff)
    then have "(k < py_range_len lo hi step) = (int k \<le> (lo - hi - 1) div (- step))"
      using neg lt by (simp add: py_range_len_def) linarith
    also have "\<dots> = (int k * (- step) \<le> lo - hi - 1)" using neg by (intro le_div_pos_iff) simp
    finally show ?thesis using neg by auto
  next
    case ge: False
    have "int k * step \<le> 0" using neg by (simp add: mult_nonneg_nonpos)
    with ge have "\<not> hi < lo + int k * step" by linarith
    with ge neg show ?thesis by (simp add: py_range_len_def)
  qed
qed

text \<open>
  Claim C3. Called with \<open>jan_code = 22799\<close>, \<open>dec_code = 22787\<close> and \<open>diff = -1\<close>, the
  table builder returns a mapping with exactly 12 entries, one for each calendar month
  name, and the \<open>k\<close>-th month (January being 0) has the code \<open>22799 - k\<close>.
\<close>

theorem month_codes_example:
  "\<exists>month_codes. create_month_codes_dict 22799 22787 (- 1) = Inr month_codes
     \<and> dom month_codes = set month_names
     \<and> card (dom month_codes) = 12
     \<and> map month_codes month_names = map (\<lambda>k. Some (22799 - int k)) [0..<12]"
proof -
  obtain codes where codes: "py_range 22799 22787 (- 1) = Inr codes"
    by (simp add: py_range_def)
  have len: "length codes = 12"
    using length_py_range [OF codes] by (simp add: py_range_len_def)
  let ?m = "fill_month_codes (zip month_names codes)"
  have res: "create_month_codes_dict 22799 22787 (- 1) = Inr ?m"
    by (simp add: create_month_codes_dict_def codes)
  have d: "dom ?m = set month_names"
    by (simp add: fill_month_codes_dom len length_month_names [symmetric])
  have c: "card (dom ?m) = 12"
    using distinct_month_names by (simp add: d distinct_card length_month_names)
  have "map ?m month_names = map (\<lambda>k. Some (22799 - int k)) [0..<12]"
  proof (rule nth_equalityI)
    show "length (map ?m month_names) = length (map (\<lambda>k. Some (22799 - int k)) [0..<12])"
      by (simp add: length_month_names)
  next
    fix i assume "i < length (map ?m month_names)"
    then have i: "i < 12" by (simp add: length_month_names)
    then have "codes ! i = 22799 + int i * (- 1)"
      using nth_py_range [OF codes, of i] by (simp add: py_range_len_def)
    moreover have "?m (month_names ! i) = Some (codes ! i)"
      using i by (intro fill_month_codes_nth distinct_month_names) (simp_all add: length_month_names len)
    ultimately show "map ?m month_names ! i = map (\<lambda>k. Some (22799 - int k)) [0..<12] ! i"
      using i by (simp add: length_month_names)
  qed
  with res d c show ?thesis by blast
qed

lemma create_month_codes_dict_Inr:
  "diff \<noteq> 0 \<Longrightarrow>
   create_month_codes_dict jan_code dec_code diff =
     Inr (fill_month_codes (zip month_names
            (map (\<lambda>k. jan_code + int k * diff) [0..<py_range_len jan_code dec_code diff])))"
  by (simp add: create_month_codes_dict_def py_range_def)

lemma month_codes_dom:
  "dom (fill_month_codes (zip month_names (map f [0..<n]))) = set (take n month_names)"
  by (simp add: fill_month_codes_dom)

lemma month_codes_nth:
  assumes "k < n" and "k < 12"
  shows "fill_month_codes (zip month_names (map f [0..<n])) (month_names ! k) = Some (f k)"
proof -
  have "fill_month_codes (zip month_names (map f [0..<n])) (month_names ! k) = Some (map f [0..<n] ! k)"
    using assms by (intro fill_month_codes_nth distinct_month_names) (simp_all add: length_month_names)
  with assms show ?thesis by simp
qed

text \<open>
  Claim C8. For a nonzero \<open>diff\<close> whose range from \<open>jan_code\<close> toward \<open>dec_code\<close> has
  fewer than 12 values, the table builder raises nothing and returns a mapping in which
  exactly the first months, in calendar order, have their codes and the remaining month
  names are not keys.
\<close>

theorem short_range_leaves_months_unmapped:
  assumes "diff \<noteq> 0" and "py_range_len jan_code dec_code diff < 12"
  shows "\<exists>month_codes. create_month_codes_dict jan_code dec_code diff = Inr month_codes
           \<and> dom month_codes = set (take (py_range_len jan_code dec_code diff) month_names)
           \<and> card (dom month_codes) = py_range_len jan_code dec_code diff
           \<and> (\<forall>k < py_range_len jan_code dec_code diff.
                 month_codes (month_names ! k) = Some (jan_code + int k * diff))
           \<and> (\<forall>k. py_range_len jan_code dec_code diff \<le> k \<and> k < 12
                 \<longrightarrow> month_codes (month_names ! k) = None)"
proof -
  let ?n = "py_range_len jan_code dec_code diff"
  let ?m = "fill_month_codes (zip month_names (map (\<lambda>k. jan_code + int k * diff) [0..<?n]))"
  have res: "create_month_codes_dict jan_code dec_code diff = Inr ?m"
    using assms(1) by (rule create_month_codes_dict_Inr)
  have d: "dom ?m = set (take ?n month_names)" by (rule month_codes_dom)
  have dist: "distinct (take ?n month_names)" using distinct_month_names by simp
  have c: "card (dom ?m) = ?n"
    using assms(2) by (simp add: d distinct_card [OF dist] length_month_names)
  have v: "\<forall>k < ?n. ?m (month_names ! k) = Some (jan_code + int k * diff)"
    using assms(2) by (auto intro: month_codes_nth)
  have u: "\<forall>k. ?n \<le> k \<and> k < 12 \<longrightarrow> ?m (month_names ! k) = None"
  proof (intro allI impI)
    fix k assume k: "?n \<le> k \<and> k < 12"
    have "month_names ! k \<notin> set (take ?n month_names)"
    proof
      assume "month_names ! k \<in> set (take ?n month_names)"
      then obtain j where j: "j < ?n" "j < length month_names" "month_names ! j = month_names ! k"
        by (auto simp: in_set_conv_nth)
      with k distinct_month_names have "j = k"
        by (simp add: nth_eq_iff_index_eq length_month_names)
      with j k show False by simp
    qed
    then show "?m (month_names ! k) = None" using d by (metis domIff)
  qed
  from res d c v u show ?thesis by blast
qed

theorem short_range_leaves_months_unmapped_witness:
  "(1::int) \<noteq> 0 \<and> py_range_len 1 4 1 = 3 \<and>
   (\<exists>month_codes. create_month_codes_dict 1 4 1 = Inr month_codes
      \<and> dom month_codes = {''January'', ''February'', ''March''}
      \<and> month_codes ''January'' = Some 1 \<and> month_codes ''February'' = Some 2
      \<and> month_codes ''March'' = Some 3 \<and> month_codes ''April'' = None
      \<and> month_codes ''December'' = None)"
proof -
  have n: "py_range_len 1 4 1 = 3" by (simp add: py_range_len_def)
  have h: "py_range_len 1 4 1 < 12" by (simp add: n)
  from short_range_leaves_months_unmapped [of 1 1 4, OF _ h]
  obtain month_codes where m: "create_month_codes_dict 1 4 1 = Inr month_codes"
    "dom month_codes = set (take (py_range_len 1 4 1) month_names)"
    "\<forall>k < py_range_len 1 4 1. month_codes (month_names ! k) = Some (1 + int k * 1)"
    "\<forall>k. py_range_len 1 4 1 \<le> k \<and> k < 12 \<longrightarrow> month_codes (month_names ! k) = None"
    by auto
  have "dom month_codes = {''January'', ''February'', ''March''}"
    using m(2) by (simp add: n month_names_eq) 
  moreover have "month_codes ''January'' = Some 1" using m(3) [rule_format, of 0] by (simp add: n month_names_eq)
  moreover have "month_codes ''February'' = Some 2" using m(3) [rule_format, of 1] by (simp add: n month_names_eq)
  moreover have "month_codes ''March'' = Some 3" using m(3) [rule_format, of 2] by (simp add: n month_names_eq)
  moreover have "month_codes ''April'' = None" using m(4) [rule_format, of 3] by (simp add: n month_names_eq)
  moreover have "month_codes ''December'' = None" using m(4) [rule_format, of 11] by (simp add: n month_names_eq)
  ultimately show ?thesis using m(1) n by auto
qed

text \<open>
  Claim C10. For every \<open>jan_code\<close>, \<open>dec_code\<close> and nonzero \<open>diff\<close> the table builder
  returns a mapping with at most 12 entries whose keys are calendar month names, also when
  the range has more than 12 values: the codes after the twelfth are dropped.
\<close>

theorem month_codes_at_most_twelve:
  assumes "diff \<noteq> 0"
  shows "\<exists>month_codes. create_month_codes_dict jan_code dec_code diff = Inr month_codes
           \<and> dom month_codes \<subseteq> set month_names
           \<and> card (dom month_codes) \<le> 12
           \<and> card (dom month_codes) = min 12 (py_range_len jan_code dec_code diff)
           \<and> dom month_codes = set (take (py_range_len jan_code dec_code diff) month_names)"
proof -
  let ?n = "py_range_len jan_code dec_code diff"
  let ?m = "fill_month_codes (zip month_names (map (\<lambda>k. jan_code + int k * diff) [0..<?n]))"
  have res: "create_month_codes_dict jan_code dec_code diff = Inr ?m"
    using assms(1) by (rule create_month_codes_dict_Inr)
  have d: "dom ?m = set (take ?n month_names)" by (rule month_codes_dom)
  have dist: "distinct (take ?n month_names)" using distinct_month_names by simp
  have c: "card (dom ?m) = min 12 ?n"
    by (simp add: d distinct_card [OF dist] length_month_names)
  have s: "dom ?m \<subseteq> set month_names" unfolding d by (rule set_take_subset)
  from res d c s show ?thesis by (intro exI [of _ ?m]) simp
qed

theorem month_codes_at_most_twelve_witness:
  "(1::int) \<noteq> 0 \<and> py_range_len 0 20 1 = 20 \<and>
   (\<exists>month_codes. create_month_codes_dict 0 20 1 = Inr month_codes
      \<and> dom month_codes = set month_names \<and> card (dom month_codes) = 12)"
proof -
  have n: "py_range_len 0 20 1 = 20" by (simp add: py_range_len_def)
  from month_codes_at_most_twelve [of 1 0 20] n show ?thesis
    by (auto simp: length_month_names)
qed

section \<open>Properties of the stack index\<close>

text \<open>
  Claim C5. For every integer year and month code the stack-index calculator returns
  \<open>year * 12 - month_code\<close>; it is a function of its two arguments alone, and
  \<open>get_stackID 2010 22788 = 1332\<close>.
\<close>

theorem get_stackID_formula:
  "get_stackID y month_code = y * 12 - month_code \<and> get_stackID 2010 22788 = 1332"
  by (simp add: get_stackID_def)

section \<open>Properties of the raster point sampler\<close>

lemma temps_loop_Inr:
  "temps_loop open_file cs bs acc = Inr ts \<Longrightarrow>
   length bs \<le> length cs \<and>
   (\<exists>new. ts = acc @ new \<and> length new = length bs \<and>
      (\<forall>i < length bs. unpacked_temp open_file (cs ! i) (bs ! i) = Inr (new ! i)))"
proof (induction open_file cs bs acc arbitrary: ts rule: temps_loop.induct)
  case (1 open_file coordinates all_temps)
  then show ?case by simp
next
  case (2 open_file b bands all_temps)
  then show ?case by simp
next
  case (3 open_file c coordinates b bands all_temps)
  from "3.prems" obtain t where t: "unpacked_temp open_file c b = Inr t"
    and rest: "temps_loop open_file coordinates bands (all_temps @ [t]) = Inr ts"
    by (auto split: sum.splits)
  from "3.IH" [OF t rest] obtain new where len: "length bands \<le> length coordinates"
    and new: "ts = (all_temps @ [t]) @ new" "length new = length bands"
      "\<forall>i < length bands. unpacked_temp open_file (coordinates ! i) (bands ! i) = Inr (new ! i)"
    by blast
  have "\<forall>i < length (b # bands). unpacked_temp open_file ((c # coordinates) ! i) ((b # bands) ! i) = Inr ((t # new) ! i)"
  proof (intro allI impI)
    fix i assume "i < length (b # bands)"
    then show "unpacked_temp open_file ((c # coordinates) ! i) ((b # bands) ! i) = Inr ((t # new) ! i)"
      using t new(3) by (cases i) simp_all
  qed
  moreover have "ts = all_temps @ (t # new)" using new(1) by simp
  moreover have "length (t # new) = length (b # bands)" using new(2) by simp
  ultimately show ?case using len by (metis length_Cons Suc_le_mono)
qed

lemma temps_loop_succeeds:
  "length bs \<le> length cs \<Longrightarrow>
   (\<forall>i < length bs. \<exists>t. unpacked_temp open_file (cs ! i) (bs ! i) = Inr t) \<Longrightarrow>
   \<exists>ts. temps_loop open_file cs bs acc = Inr ts"
proof (induction open_file cs bs acc rule: temps_loop.induct)
  case (1 open_file coordinates all_temps)
  then show ?case by simp
next
  case (2 open_file b bands all_temps)
  then show ?case by simp
next
  case (3 open_file c coordinates b bands all_temps)
  from "3.prems"(2) [rule_format, of 0] obtain t where t: "unpacked_temp open_file c b = Inr t"
    by auto
  have "\<forall>i < length bands. \<exists>t. unpacked_temp open_file (coordinates ! i) (bands ! i) = Inr t"
  proof (intro allI impI)
    fix i assume "i < length bands"
    with "3.prems"(2) [rule_format, of "Suc i"]
    show "\<exists>t. unpacked_temp open_file (coordinates ! i) (bands ! i) = Inr t" by simp
  qed
  with "3.IH" [OF t] "3.prems"(1) obtain ts where
    "temps_loop open_file coordinates bands (all_temps @ [t]) = Inr ts" by auto
  with t show ?case by simp
qed

lemma np_index_inside: "0 \<le> i \<Longrightarrow> i < int (length axis) \<Longrightarrow> np_index axis i = Inr (axis ! nat i)"
  by (simp add: np_index_def)

lemma in_range_unpacked_temp:
  assumes "in_range open_file coordinate band_index"
  shows "\<exists>t. unpacked_temp open_file coordinate band_index = Inr t"
proof -
  let ?g = "GetGeoTransform open_file"
  let ?x = "py_int ((fst coordinate - gt0 ?g) / gt1 ?g)"
  let ?y = "py_int ((snd coordinate - gt3 ?g) / gt5 ?g)"
  from assms obtain b where b: "GetRasterBand open_file band_index = Some b"
    and nz: "gt1 ?g \<noteq> 0" "gt5 ?g \<noteq> 0"
    and y: "0 \<le> ?y" "?y < int (length (ReadAsArray b))"
    and x: "0 \<le> ?x" "?x < int (length (ReadAsArray b ! nat ?y))"
    by (auto simp: in_range_def Let_def split: option.splits)
  have "np_index2 (ReadAsArray b) ?y ?x = Inr (ReadAsArray b ! nat ?y ! nat ?x)"
    using x y by (simp add: np_index2_def np_index_inside)
  with b nz show ?thesis
    by (simp add: unpacked_temp_def pixel_index_def Let_def)
qed

text \<open>
  Claim C6. For \<open>N\<close> coordinate pairs and \<open>N\<close> band indices, all in range for the
  raster, the sampler returns a list of exactly \<open>N\<close> values, and the \<open>i\<close>-th value is the
  decoded sample of the \<open>i\<close>-th coordinate pair in the \<open>i\<close>-th band. The result is a
  function of the raster and the two input lists.
\<close>

theorem get_temps_list_length_and_order:
  assumes "length coordinates = length bands"
    and "\<forall>i < length bands. in_range open_file (coordinates ! i) (bands ! i)"
  shows "\<exists>all_temps. get_temps_list open_file coordinates bands = Inr all_temps
           \<and> length all_temps = length bands
           \<and> (\<forall>i < length bands.
                 unpacked_temp open_file (coordinates ! i) (bands ! i) = Inr (all_temps ! i))"
proof -
  have "\<forall>i < length bands. \<exists>t. unpacked_temp open_file (coordinates ! i) (bands ! i) = Inr t"
    using assms(2) by (auto intro: in_range_unpacked_temp)
  with assms(1) temps_loop_succeeds [of bands coordinates open_file "[]"]
  obtain all_temps where r: "temps_loop open_file coordinates bands [] = Inr all_temps" by auto
  from temps_loop_Inr [OF r] have "length all_temps = length bands"
    "\<forall>i < length bands. unpacked_temp open_file (coordinates ! i) (bands ! i) = Inr (all_temps ! i)"
    by auto
  with r show ?thesis by (simp add: get_temps_list_def)
qed


lemma example_GetRasterBand:
  "GetRasterBand example_raster 1 = Some (example_band 0)"
  "GetRasterBand example_raster 2 = Some (example_band 2)"
  "GetRasterBand example_raster 7 = Some (example_band 65494)"
  by (simp_all add: GetRasterBand_def example_raster_def)

lemma example_geotransform:
  "GetGeoTransform example_raster = \<lparr>gt0 = 0, gt1 = 1, gt2 = 0, gt3 = 2, gt4 = 0, gt5 = - 1\<rparr>"
  by (simp add: example_raster_def)

lemma example_py_int:
  "py_int (1 / 2) = 0"
  "py_int (3 / 2) = 1"
  "py_int (- (1 / 2)) = 0"
  by (simp_all add: py_int_def)

lemma example_pixel_index:
  "pixel_index (1 / 2) 0 1 = Inr 0"
  "pixel_index (3 / 2) 0 1 = Inr 1"
  "pixel_index (- (1 / 2)) 0 1 = Inr 0"
  "pixel_index (3 / 2) 2 (- 1) = Inr 0"
  "pixel_index (1 / 2) 2 (- 1) = Inr 1"
  by (simp_all add: pixel_index_def example_py_int)

lemma example_np_index2:
  "np_index2 (ReadAsArray (example_band d)) 0 0 = Inr 10"
  "np_index2 (ReadAsArray (example_band d)) 1 1 = Inr (40 + d)"
  "np_index2 (ReadAsArray (example_band d)) 0 (- 1) = Inr 20"
  by (simp_all add: np_index2_def np_index_def example_band_def)

lemma example_unpacked_temp:
  "unpacked_temp example_raster (1 / 2, 3 / 2) 1 = Inr 6"
  "unpacked_temp example_raster (3 / 2, 1 / 2) 2 = Inr 22"
  "unpacked_temp example_raster (- (1 / 2), 3 / 2) 1 = Inr 6"
  "unpacked_temp example_raster (1 / 2, 3 / 2) 7 = Inr 6"
  "unpacked_temp example_raster (3 / 2, 1 / 2) 7 = Inr 32768"
  by (simp_all add: unpacked_temp_def example_GetRasterBand example_geotransform
      example_pixel_index example_np_index2, simp_all add: example_band_def)

lemma example_in_range:
  "in_range example_raster (1 / 2, 3 / 2) 1"
  "in_range example_raster (3 / 2, 1 / 2) 2"
  by (simp_all add: in_range_def example_GetRasterBand example_geotransform example_py_int,
      simp_all add: example_band_def)

theorem get_temps_list_length_and_order_witness:
  "length [(1 / 2, 3 / 2), (3 / 2, 1 / 2 :: real)] = length [1, 2 :: int]
   \<and> in_range example_raster (1 / 2, 3 / 2) 1 \<and> in_range example_raster (3 / 2, 1 / 2) 2
   \<and> get_temps_list example_raster [(1 / 2, 3 / 2), (3 / 2, 1 / 2)] [1, 2] = Inr [6, 22]"
proof -
  have a: "in_range example_raster (1 / 2, 3 / 2) 1" by (rule example_in_range)
  have b: "in_range example_raster (3 / 2, 1 / 2) 2" by (rule example_in_range)
  have h: "\<forall>i < length [1, 2 :: int].
             in_range example_raster ([(1 / 2, 3 / 2), (3 / 2, 1 / 2)] ! i) ([1, 2] ! i)"
    using a b by (simp add: less_Suc_eq)
  from get_temps_list_length_and_order [of "[(1 / 2, 3 / 2), (3 / 2, 1 / 2)]" "[1, 2]" example_raster, OF _ h]
  obtain all_temps where r: "get_temps_list example_raster [(1 / 2, 3 / 2), (3 / 2, 1 / 2)] [1, 2] = Inr all_temps"
    and len: "length all_temps = 2"
    and v: "\<forall>i < length [1, 2 :: int]. unpacked_temp example_raster ([(1 / 2, 3 / 2), (3 / 2, 1 / 2)] ! i) ([1, 2] ! i) = Inr (all_temps ! i)"
    by auto
  from v [rule_format, of 0] have v0: "all_temps ! 0 = 6" by (simp add: example_unpacked_temp)
  from v [rule_format, of 1] have v1: "all_temps ! 1 = 22" by (simp add: example_unpacked_temp)
  have "all_temps = [6, 22]"
    using len v0 v1 by (intro nth_equalityI) (auto dest!: less_2_cases)
  with r a b show ?thesis by simp
qed

lemma py_int_nonneg: "0 \<le> v \<Longrightarrow> py_int v = \<lfloor>v\<rfloor>"
  by (simp add: py_int_def)

text \<open>
  Claim C1, as amended. For every entry \<open>i\<close> of a call that returns, the column is
  \<open>int((x - originX) / pixelWidth)\<close> and the row is \<open>int((y - originY) / pixelHeight)\<close>,
  where \<open>int\<close> truncates toward zero; they equal the \<open>floor\<close> of the quotient when the
  quotient is not negative. The returned value is \<open>offset + packed_value * scale\<close>, with
  \<open>packed_value\<close> the band array element at \<open>[row, col]\<close>.
\<close>

theorem get_temps_list_value:
  assumes "get_temps_list open_file coordinates bands = Inr all_temps" and "i < length bands"
  shows "\<exists>b x y packed_temp.
           GetRasterBand open_file (bands ! i) = Some b
         \<and> x = py_int ((fst (coordinates ! i) - gt0 (GetGeoTransform open_file)) / gt1 (GetGeoTransform open_file))
         \<and> y = py_int ((snd (coordinates ! i) - gt3 (GetGeoTransform open_file)) / gt5 (GetGeoTransform open_file))
         \<and> np_index2 (ReadAsArray b) y x = Inr packed_temp
         \<and> all_temps ! i = GetOffset b + real_of_int packed_temp * GetScale b
         \<and> (0 \<le> (fst (coordinates ! i) - gt0 (GetGeoTransform open_file)) / gt1 (GetGeoTransform open_file)
              \<longrightarrow> x = spec_col (GetGeoTransform open_file) (fst (coordinates ! i)))
         \<and> (0 \<le> (snd (coordinates ! i) - gt3 (GetGeoTransform open_file)) / gt5 (GetGeoTransform open_file)
              \<longrightarrow> y = spec_row (GetGeoTransform open_file) (snd (coordinates ! i)))"
proof -
  from assms(1) have "temps_loop open_file coordinates bands [] = Inr all_temps"
    by (simp add: get_temps_list_def)
  from temps_loop_Inr [OF this] assms(2)
  have u: "unpacked_temp open_file (coordinates ! i) (bands ! i) = Inr (all_temps ! i)" by auto
  then show ?thesis
    by (auto simp: unpacked_temp_def Let_def pixel_index_def spec_col_def spec_row_def py_int_nonneg
        split: sum.splits option.splits if_splits)
qed

text \<open>
  The claim as first stated, with \<open>floor\<close>, fails for a negative quotient: at
  \<open>x = -1/2\<close> the sampler takes column 0 and returns 6, while the \<open>floor\<close> is \<open>-1\<close>,
  the last column, whose decoded value is 11.
\<close>

theorem raster_col_floor_counterexample:
  "get_temps_list example_raster [(- (1 / 2), 3 / 2)] [1] = Inr [6]
   \<and> py_int ((- (1 / 2) - gt0 (GetGeoTransform example_raster)) / gt1 (GetGeoTransform example_raster)) = 0
   \<and> spec_col (GetGeoTransform example_raster) (- (1 / 2)) = - 1
   \<and> spec_decoded_value example_raster (- (1 / 2), 3 / 2) 1 = Inr 11"
proof -
  have "get_temps_list example_raster [(- (1 / 2), 3 / 2)] [1] = Inr [6]"
    by (simp add: get_temps_list_def example_unpacked_temp)
  moreover have c: "spec_col (GetGeoTransform example_raster) (- (1 / 2)) = - 1"
    by (simp add: spec_col_def example_geotransform)
  moreover have "spec_row (GetGeoTransform example_raster) (3 / 2) = 0"
    by (simp add: spec_row_def example_geotransform)
  then have "spec_decoded_value example_raster (- (1 / 2), 3 / 2) 1 = Inr 11"
    by (simp add: spec_decoded_value_def example_GetRasterBand c example_np_index2,
        simp add: example_band_def)
  ultimately show ?thesis
    by (simp add: example_geotransform example_py_int)
qed


theorem get_temps_list_value_witness:
  "get_temps_list example_raster [(1 / 2, 3 / 2)] [1] = Inr [6] \<and> (0::nat) < length [1 :: int]
   \<and> (\<exists>b x y packed_temp.
          GetRasterBand example_raster 1 = Some b \<and> x = 0 \<and> y = 0
        \<and> np_index2 (ReadAsArray b) y x = Inr packed_temp
        \<and> (6 :: real) = GetOffset b + real_of_int packed_temp * GetScale b
        \<and> x = spec_col (GetGeoTransform example_raster) (1 / 2)
        \<and> y = spec_row (GetGeoTransform example_raster) (3 / 2))"
proof -
  have r: "get_temps_list example_raster [(1 / 2, 3 / 2)] [1] = Inr [6]"
    by (simp add: get_temps_list_def example_unpacked_temp)
  have i: "(0::nat) < length [1 :: int]" by simp
  from get_temps_list_value [OF r i] r i show ?thesis
    by (simp add: example_geotransform example_py_int spec_col_def spec_row_def)
qed

section \<open>Properties of the species filter\<close>

lemma set_drop_duplicates: "set (drop_duplicates xs) = set xs"
  by (induction xs rule: drop_duplicates.induct) auto

lemma distinct_drop_duplicates: "distinct (drop_duplicates xs)"
  by (induction xs rule: drop_duplicates.induct) (auto simp: set_drop_duplicates)

lemma length_drop_duplicates: "length (drop_duplicates xs) = card (set xs)"
  using distinct_card [OF distinct_drop_duplicates, of xs] by (simp add: set_drop_duplicates)

lemma groupby_keys: "set (map fst (groupby col dataframe)) = col ` set dataframe"
  by (simp add: groupby_def comp_def set_drop_duplicates)

lemma groupby_member:
  "(k, g) \<in> set (groupby col dataframe) \<longleftrightarrow>
     k \<in> col ` set dataframe \<and> g = filter (\<lambda>r. col r = k) dataframe"
  by (auto simp: groupby_def set_drop_duplicates)

lemma group_individuals:
  "length (drop_duplicates (map row_index (filter (\<lambda>r. species_col r = s) dataframe)))
     = distinct_individuals dataframe species_col s"
  by (simp add: length_drop_duplicates distinct_individuals_def)

lemma set_insufficient_species:
  "set (insufficient_species dataframe species_col) =
     {s \<in> species_col ` set dataframe. distinct_individuals dataframe species_col s < 30}"
proof -
  have "set (insufficient_species dataframe species_col) =
      {k. \<exists>g. (k, g) \<in> set (groupby species_col dataframe)
             \<and> length (drop_duplicates (map row_index g)) < 30}"
    by (force simp: insufficient_species_def)
  also have "\<dots> = {s \<in> species_col ` set dataframe. distinct_individuals dataframe species_col s < 30}"
    by (auto simp: groupby_member group_individuals)
  finally show ?thesis .
qed

lemma remove_species_filter:
  "remove_species dataframe species_col =
     filter (\<lambda>r. 30 \<le> distinct_individuals dataframe species_col (species_col r)) dataframe"
  unfolding remove_species_def
  by (rule filter_cong) (auto simp: set_insufficient_species)

text \<open>
  Claim C2. The species filter returns exactly the records of the groups whose distinct
  row-index count is at least 30, in their order in the frame: every record of a group
  with fewer than 30 distinct row indices is removed, every record of a group with at
  least 30 is kept. In the example frame the species with 29 individuals is removed
  entirely and the species with exactly 30 is kept in full.
\<close>

theorem remove_species_keeps_groups_of_30:
  "remove_species dataframe species_col =
     filter (\<lambda>r. 30 \<le> distinct_individuals dataframe species_col (species_col r)) dataframe
   \<and> (\<forall>r \<in> set dataframe. distinct_individuals dataframe species_col (species_col r) < 30
          \<longrightarrow> r \<notin> set (remove_species dataframe species_col))
   \<and> (\<forall>r \<in> set dataframe. 30 \<le> distinct_individuals dataframe species_col (species_col r)
          \<longrightarrow> r \<in> set (remove_species dataframe species_col))"
  by (auto simp: remove_species_filter)


lemma example_specimen_sel:
  "row_index (example_specimen s i) = int i"
  "clean_genus_species (example_specimen s i) = s"
  by (simp_all add: example_specimen_def)

lemma set_example_frame:
  "set example_frame =
     example_specimen ''Parus major'' ` {0..<29} \<union> example_specimen ''Sitta europaea'' ` {29..<59}"
  by (simp only: example_frame_def set_append set_map set_upt)

lemma example_frame_individuals:
  "distinct_individuals example_frame clean_genus_species ''Parus major'' = 29"
  "distinct_individuals example_frame clean_genus_species ''Sitta europaea'' = 30"
proof -
  have a: "row_index ` {r \<in> set example_frame. clean_genus_species r = ''Parus major''} = int ` {0..<29}"
    unfolding set_example_frame by (force simp: example_specimen_sel image_iff)
  have b: "row_index ` {r \<in> set example_frame. clean_genus_species r = ''Sitta europaea''} = int ` {29..<59}"
    unfolding set_example_frame by (force simp: example_specimen_sel image_iff)
  show "distinct_individuals example_frame clean_genus_species ''Parus major'' = 29"
    unfolding distinct_individuals_def a by (simp add: card_image)
  show "distinct_individuals example_frame clean_genus_species ''Sitta europaea'' = 30"
    unfolding distinct_individuals_def b by (simp add: card_image)
qed

theorem remove_species_keeps_groups_of_30_witness:
  "distinct_individuals example_frame clean_genus_species ''Parus major'' = 29
   \<and> distinct_individuals example_frame clean_genus_species ''Sitta europaea'' = 30
   \<and> example_specimen ''Parus major'' 0 \<in> set example_frame
   \<and> example_specimen ''Sitta europaea'' 29 \<in> set example_frame
   \<and> remove_species example_frame clean_genus_species
       = map (example_specimen ''Sitta europaea'') [29..<59]"
proof -
  let ?P = "\<lambda>r. 30 \<le> distinct_individuals example_frame clean_genus_species (clean_genus_species r)"
  have eq: "remove_species example_frame clean_genus_species = filter ?P example_frame"
    using remove_species_keeps_groups_of_30 [of example_frame clean_genus_species] by blast
  have "filter ?P (map (example_specimen ''Parus major'') [0..<29]) = []"
    unfolding filter_empty_conv
    by (auto simp only: set_map example_specimen_sel example_frame_individuals)
  moreover have "filter ?P (map (example_specimen ''Sitta europaea'') [29..<59])
      = map (example_specimen ''Sitta europaea'') [29..<59]"
    unfolding filter_id_conv
    by (auto simp only: set_map example_specimen_sel example_frame_individuals)
  ultimately have "filter ?P example_frame = map (example_specimen ''Sitta europaea'') [29..<59]"
    unfolding example_frame_def filter_append by (simp only: append_Nil)
  moreover have "example_specimen ''Parus major'' 0 \<in> set example_frame"
    "example_specimen ''Sitta europaea'' 29 \<in> set example_frame"
    unfolding set_example_frame by simp_all
  ultimately show ?thesis using eq by (simp only: example_frame_individuals simp_thms)
qed

section \<open>Properties of the script\<close>

lemma july_code:
  "create_month_codes_dict 22799 22787 (- 1) = Inr month_codes \<Longrightarrow> month_codes ''July'' = Some 22793"
proof -
  assume a: "create_month_codes_dict 22799 22787 (- 1) = Inr month_codes"
  have n: "py_range_len 22799 22787 (- 1) = 12" by (simp add: py_range_len_def)
  from a have m: "month_codes = fill_month_codes (zip month_names
            (map (\<lambda>k. 22799 + int k * (- 1)) [0..<12]))"
    by (simp add: create_month_codes_dict_Inr n)
  have "month_names ! 6 = ''July''" by (simp add: month_names_eq)
  with month_codes_nth [of 6 12 "\<lambda>k. 22799 + int k * (- 1)"] show ?thesis
    unfolding m by simp
qed

lemma temp_data_unfold:
  "temp_data open_file individual_data =
     (case get_temps_list open_file
             (map (\<lambda>k. (fst k, fst (snd k)))
                (temp_lookup_keys (map (\<lambda>r. add_stackID_july r (get_stackID (year r) 22793)) individual_data)))
             (map (\<lambda>k. snd (snd k))
                (temp_lookup_keys (map (\<lambda>r. add_stackID_july r (get_stackID (year r) 22793)) individual_data))) of
        Inl e \<Rightarrow> Inl e
      | Inr temps \<Rightarrow>
          if length temps \<noteq> length (temp_lookup_keys (map (\<lambda>r. add_stackID_july r (get_stackID (year r) 22793)) individual_data))
          then Inl ValueError
          else Inr (merge (map (\<lambda>r. add_stackID_july r (get_stackID (year r) 22793)) individual_data)
                 (zip (temp_lookup_keys (map (\<lambda>r. add_stackID_july r (get_stackID (year r) 22793)) individual_data)) temps)))"
proof -
  obtain month_codes where m: "create_month_codes_dict 22799 22787 (- 1) = Inr month_codes"
    using create_month_codes_dict_Inr [of "- 1" 22799 22787] by simp
  from july_code [OF m] m show ?thesis
    by (simp add: temp_data_def Let_def)
qed

lemma filter_key_unique:
  "distinct (map fst kvs) \<Longrightarrow> (k, v) \<in> set kvs \<Longrightarrow> filter (\<lambda>l. fst l = k) kvs = [(k, v)]"
proof (induction kvs)
  case Nil
  then show ?case by simp
next
  case (Cons a kvs)
  show ?case
  proof (cases "a = (k, v)")
    case True
    with Cons.prems have "\<forall>l \<in> set kvs. fst l \<noteq> k" by (auto simp: image_iff)
    then have "filter (\<lambda>l. fst l = k) kvs = []" by (simp add: filter_empty_conv)
    with True show ?thesis by simp
  next
    case False
    with Cons.prems have in_tl: "(k, v) \<in> set kvs" and d: "distinct (map fst kvs)" by auto
    from Cons.prems in_tl have "fst a \<noteq> k" by (auto simp: image_iff)
    with Cons.IH [OF d in_tl] show ?thesis by simp
  qed
qed

lemma merge_distinct_keys:
  assumes "distinct keys" and "length temps = length keys" and "lookup_key ` set ws \<subseteq> set keys"
  shows "merge ws (zip keys temps)
           = map (\<lambda>r. add_july_temps r (the (map_of (zip keys temps) (lookup_key r)))) ws"
proof -
  have d: "distinct (map fst (zip keys temps))" using assms(1,2) by simp
  have "\<And>r. r \<in> set ws \<Longrightarrow>
          map (\<lambda>l. add_july_temps r (snd l)) (filter (\<lambda>l. fst l = lookup_key r) (zip keys temps))
            = [add_july_temps r (the (map_of (zip keys temps) (lookup_key r)))]"
  proof -
    fix r assume "r \<in> set ws"
    with assms(3) have "lookup_key r \<in> set keys" by auto
    with assms(2) have "lookup_key r \<in> fst ` set (zip keys temps)"
      by (metis map_fst_zip set_map)
    then obtain v where v: "(lookup_key r, v) \<in> set (zip keys temps)" by force
    from d v have "map_of (zip keys temps) (lookup_key r) = Some v" by (rule map_of_is_SomeI)
    with filter_key_unique [OF d v]
    show "map (\<lambda>l. add_july_temps r (snd l)) (filter (\<lambda>l. fst l = lookup_key r) (zip keys temps))
            = [add_july_temps r (the (map_of (zip keys temps) (lookup_key r)))]" by simp
  qed
  then have "map (\<lambda>r. map (\<lambda>l. add_july_temps r (snd l))
                          (filter (\<lambda>l. fst l = lookup_key r) (zip keys temps))) ws
       = map (\<lambda>r. [add_july_temps r (the (map_of (zip keys temps) (lookup_key r)))]) ws"
    by (intro map_cong) simp_all
  then show ?thesis
    by (simp only: merge_def concat_map_singleton)
qed

lemma add_july_temps_sel:
  "july_temps (add_july_temps r t) = t"
  "lookup_key (add_july_temps r t) = lookup_key r"
  "longitude (add_july_temps r t) = longitude r"
  "decimallatitude (add_july_temps r t) = decimallatitude r"
  "stackID_july (add_july_temps r t) = stackID_july r"
  "row_index (add_july_temps r t) = row_index r"
  "clean_genus_species (add_july_temps r t) = clean_genus_species r"
  by (simp_all add: add_july_temps_def lookup_key_def)

lemma example_with_stackID:
  "map (\<lambda>r. add_stackID_july r (get_stackID (year r) 22793)) example_individual_data
     = map (\<lambda>i. add_stackID_july (example_specimen ''Parus major'' i) 7) [0..<30]
       @ [add_stackID_july example_missing 7]"
  by (simp add: example_individual_data_def get_stackID_def example_specimen_def example_missing_def)

lemma example_lookup_key:
  "lookup_key (add_stackID_july (example_specimen s i) b) = (1 / 2, 3 / 2, b)"
  "lookup_key (add_stackID_july example_missing b) = (3 / 2, 1 / 2, b)"
  by (simp_all add: lookup_key_def add_stackID_july_def example_specimen_def example_missing_def)

lemma drop_duplicates_replicate:
  "k1 \<noteq> k2 \<Longrightarrow> drop_duplicates (replicate (Suc n) k1 @ [k2]) = [k1, k2]"
proof -
  assume ne: "k1 \<noteq> k2"
  have "filter (\<lambda>y. y \<noteq> k1) (replicate n k1 @ [k2]) = [k2]"
    using ne by (induction n) auto
  then show ?thesis by simp
qed

lemma example_temp_lookup_keys:
  "temp_lookup_keys (map (\<lambda>r. add_stackID_july r (get_stackID (year r) 22793)) example_individual_data)
     = [(1 / 2, 3 / 2, 7), (3 / 2, 1 / 2, 7)]"
proof -
  have m: "map lookup_key (map (\<lambda>r. add_stackID_july r (get_stackID (year r) 22793)) example_individual_data)
      = replicate (Suc 29) (1 / 2, 3 / 2, 7) @ [(3 / 2, 1 / 2, 7)]"
    unfolding example_with_stackID
    by (simp only: map_append map_map comp_def example_lookup_key list.map map_replicate_const
        length_upt) simp
  show ?thesis
    unfolding temp_lookup_keys_def m by (rule drop_duplicates_replicate) simp
qed

lemma example_get_temps_list:
  "get_temps_list example_raster [(1 / 2, 3 / 2), (3 / 2, 1 / 2)] [7, 7] = Inr [6, 32768]"
  by (simp add: get_temps_list_def example_unpacked_temp)

lemma example_temp_data:
  "temp_data example_raster example_individual_data =
     Inr (example_stats_data @ [add_july_temps (add_stackID_july example_missing 7) 32768])"
proof -
  let ?ws = "map (\<lambda>r. add_stackID_july r (get_stackID (year r) 22793)) example_individual_data"
  let ?keys = "[(1 / 2, 3 / 2, 7), (3 / 2, 1 / 2, 7 :: int)] :: (real \<times> real \<times> int) list"
  let ?temps = "[6, 32768 :: real]"
  have sub: "lookup_key ` set ?ws \<subseteq> set ?keys"
    unfolding example_with_stackID by (auto simp: example_lookup_key)
  have "merge ?ws (zip ?keys ?temps)
      = map (\<lambda>r. add_july_temps r (the (map_of (zip ?keys ?temps) (lookup_key r)))) ?ws"
    by (rule merge_distinct_keys [OF _ _ sub]) simp_all
  also have "\<dots> = example_stats_data @ [add_july_temps (add_stackID_july example_missing 7) 32768]"
    unfolding example_with_stackID example_stats_data_def
    by (simp add: example_lookup_key)
  finally have "merge ?ws (zip ?keys ?temps)
      = example_stats_data @ [add_july_temps (add_stackID_july example_missing 7) 32768]" .
  then have mg: "merge ?ws [((1 / 2, 3 / 2, 7), 6), ((3 / 2, 1 / 2, 7), 32768)]
      = example_stats_data @ [add_july_temps (add_stackID_july example_missing 7) 32768]"
    by simp
  show ?thesis
    unfolding temp_data_unfold example_temp_lookup_keys
    by (simp add: example_get_temps_list mg)
qed

lemma example_stats_sel:
  "row_index (add_july_temps (add_stackID_july (example_specimen s i) b) t) = int i"
  "clean_genus_species (add_july_temps (add_stackID_july (example_specimen s i) b) t) = s"
  "july_temps (add_july_temps (add_stackID_july (example_specimen s i) b) t) = t"
  by (simp_all add: add_july_temps_def add_stackID_july_def example_specimen_def)

lemma set_example_stats_data:
  "set example_stats_data =
     (\<lambda>i. add_july_temps (add_stackID_july (example_specimen ''Parus major'' i) 7) 6) ` {0..<30}"
  by (simp only: example_stats_data_def set_map set_upt)

lemma example_stats_species:
  "r \<in> set example_stats_data \<Longrightarrow> clean_genus_species r = ''Parus major''"
  unfolding set_example_stats_data by (auto simp only: example_stats_sel)

lemma example_stats_temps:
  "r \<in> set example_stats_data \<Longrightarrow> july_temps r = 6"
  unfolding set_example_stats_data by (auto simp only: example_stats_sel)

lemma example_stats_individuals:
  "distinct_individuals example_stats_data clean_genus_species ''Parus major'' = 30"
proof -
  have a: "{r \<in> set example_stats_data. clean_genus_species r = ''Parus major''} = set example_stats_data"
    using example_stats_species by blast
  have b: "row_index ` set example_stats_data = int ` {0..<30}"
    unfolding set_example_stats_data image_image by (simp only: example_stats_sel)
  show ?thesis
    unfolding distinct_individuals_def a b by (simp add: card_image)
qed

lemma example_stats_data_result:
  "stats_data example_raster example_individual_data = Inr example_stats_data"
proof -
  have "filter (\<lambda>r. july_temps r < 3276) example_stats_data = example_stats_data"
    unfolding filter_id_conv by (simp add: example_stats_temps)
  then have f: "filter (\<lambda>r. july_temps r < 3276)
             (example_stats_data @ [add_july_temps (add_stackID_july example_missing 7) 32768])
           = example_stats_data"
    by (simp add: add_july_temps_sel)
  have "remove_species example_stats_data clean_genus_species = example_stats_data"
    unfolding remove_species_filter filter_id_conv
    by (simp add: example_stats_species example_stats_individuals)
  with f show ?thesis
    by (simp add: stats_data_def example_temp_data)
qed

text \<open>
  Claim C4. Every record that reaches a per-species regression has a sampled temperature
  strictly below 3276: the rows at or above the sentinel are removed from the merged
  frame before the species filter, so no row of the filtered frame, and no row of any
  group the regression loop iterates over, has a temperature of 3276 or more.
\<close>

theorem regression_records_below_sentinel:
  assumes "stats_data open_file individual_data = Inr dataset"
  shows "(\<exists>merged. temp_data open_file individual_data = Inr merged
            \<and> dataset = remove_species (filter (\<lambda>r. july_temps r < 3276) merged) clean_genus_species)
         \<and> (\<forall>r \<in> set dataset. july_temps r < 3276)
         \<and> (\<forall>g \<in> set (groupby clean_genus_species dataset). \<forall>r \<in> set (snd g). july_temps r < 3276)"
proof -
  from assms obtain merged where m: "temp_data open_file individual_data = Inr merged"
    and d: "dataset = remove_species (filter (\<lambda>r. july_temps r < 3276) merged) clean_genus_species"
    by (auto simp: stats_data_def split: sum.splits)
  have below: "\<forall>r \<in> set dataset. july_temps r < 3276"
    unfolding d remove_species_def by simp
  have "\<forall>g \<in> set (groupby clean_genus_species dataset). \<forall>r \<in> set (snd g). july_temps r < 3276"
  proof (intro ballI)
    fix g r assume g: "g \<in> set (groupby clean_genus_species dataset)" and r: "r \<in> set (snd g)"
    from g have "snd g = filter (\<lambda>x. clean_genus_species x = fst g) dataset"
      using groupby_member [of "fst g" "snd g" clean_genus_species dataset] by simp
    with r have "r \<in> set dataset" by simp
    with below show "july_temps r < 3276" by blast
  qed
  with m d below show ?thesis by blast
qed

lemma drop_duplicates_replicate_same: "drop_duplicates (replicate (Suc n) k) = [k]"
  by (simp add: filter_empty_conv)

lemma example_groupby:
  "groupby clean_genus_species example_stats_data = [(''Parus major'', example_stats_data)]"
proof -
  have sp: "map clean_genus_species example_stats_data = replicate 30 ''Parus major''"
    unfolding example_stats_data_def map_map comp_def
    by (simp only: example_stats_sel map_replicate_const length_upt) simp
  have keys: "drop_duplicates (map clean_genus_species example_stats_data) = [''Parus major'']"
    unfolding sp using drop_duplicates_replicate_same [of 29 "''Parus major''"] by simp
  have "filter (\<lambda>r. clean_genus_species r = ''Parus major'') example_stats_data = example_stats_data"
    unfolding filter_id_conv by (simp add: example_stats_species)
  then show ?thesis
    unfolding groupby_def keys by simp
qed

theorem regression_records_below_sentinel_witness:
  "stats_data example_raster example_individual_data = Inr example_stats_data
   \<and> temp_data example_raster example_individual_data =
       Inr (example_stats_data @ [add_july_temps (add_stackID_july example_missing 7) 32768])
   \<and> groupby clean_genus_species example_stats_data = [(''Parus major'', example_stats_data)]
   \<and> length example_stats_data = 30
   \<and> july_temps (example_stats_data ! 0) < 3276
   \<and> july_temps (snd (groupby clean_genus_species example_stats_data ! 0) ! 29) < 3276"
proof -
  note r = regression_records_below_sentinel [OF example_stats_data_result]
  have len: "length example_stats_data = 30" by (simp add: example_stats_data_def)
  then have "example_stats_data ! 0 \<in> set example_stats_data"
    and "example_stats_data ! 29 \<in> set example_stats_data" by simp_all
  moreover have "(''Parus major'', example_stats_data) \<in> set (groupby clean_genus_species example_stats_data)"
    by (simp add: example_groupby)
  ultimately have "july_temps (example_stats_data ! 0) < 3276"
    and "july_temps (snd (''Parus major'', example_stats_data) ! 29) < 3276"
    using r by (blast, force)
  then show ?thesis
    by (simp add: example_stats_data_result example_temp_data example_groupby len)
qed

lemma temp_data_Inr:
  assumes "temp_data open_file individual_data = Inr merged"
  shows "\<exists>temps.
     get_temps_list open_file
        (map (\<lambda>k. (fst k, fst (snd k)))
          (temp_lookup_keys (map (\<lambda>r. add_stackID_july r (get_stackID (year r) 22793)) individual_data)))
        (map (\<lambda>k. snd (snd k))
          (temp_lookup_keys (map (\<lambda>r. add_stackID_july r (get_stackID (year r) 22793)) individual_data)))
       = Inr temps
   \<and> length temps = length (temp_lookup_keys (map (\<lambda>r. add_stackID_july r (get_stackID (year r) 22793)) individual_data))
   \<and> merged = merge (map (\<lambda>r. add_stackID_july r (get_stackID (year r) 22793)) individual_data)
        (zip (temp_lookup_keys (map (\<lambda>r. add_stackID_july r (get_stackID (year r) 22793)) individual_data)) temps)"
  using assms unfolding temp_data_unfold
  by (auto split: sum.splits if_splits)

text \<open>
  Claim C9. The script deduplicates the (longitude, latitude, stack index) triples before
  it calls the sampler: the list of keys handed to the sampler has no repetition and
  holds exactly the triples of the frame, the sampler returns one value per key, and
  after the merge every record carries the value sampled for its triple, so records with
  the same triple have the same temperature.
\<close>

theorem temp_lookup_key_sampled_once:
  assumes "temp_data open_file individual_data = Inr merged"
  shows "\<exists>with_stackID keys temps.
           with_stackID = map (\<lambda>r. add_stackID_july r (get_stackID (year r) 22793)) individual_data
         \<and> keys = temp_lookup_keys with_stackID
         \<and> distinct keys
         \<and> set keys = lookup_key ` set with_stackID
         \<and> get_temps_list open_file (map (\<lambda>k. (fst k, fst (snd k))) keys) (map (\<lambda>k. snd (snd k)) keys)
               = Inr temps
         \<and> length temps = length keys
         \<and> merged = map (\<lambda>r. add_july_temps r (the (map_of (zip keys temps) (lookup_key r)))) with_stackID
         \<and> (\<forall>r1 \<in> set merged. \<forall>r2 \<in> set merged.
                lookup_key r1 = lookup_key r2 \<longrightarrow> july_temps r1 = july_temps r2)
         \<and> (\<forall>r \<in> set merged.
                unpacked_temp open_file (longitude r, decimallatitude r) (stackID_july r)
                  = Inr (july_temps r))"
proof -
  let ?ws = "map (\<lambda>r. add_stackID_july r (get_stackID (year r) 22793)) individual_data"
  let ?keys = "temp_lookup_keys ?ws"
  from temp_data_Inr [OF assms] obtain temps where
    g: "get_temps_list open_file (map (\<lambda>k. (fst k, fst (snd k))) ?keys) (map (\<lambda>k. snd (snd k)) ?keys) = Inr temps"
    and len: "length temps = length ?keys"
    and mg: "merged = merge ?ws (zip ?keys temps)"
    by blast
  let ?t = "\<lambda>r. the (map_of (zip ?keys temps) (lookup_key r))"
  have dist: "distinct ?keys" by (simp add: temp_lookup_keys_def distinct_drop_duplicates)
  have sk: "set ?keys = lookup_key ` set ?ws" by (simp only: temp_lookup_keys_def set_drop_duplicates set_map)
  have m: "merged = map (\<lambda>r. add_july_temps r (?t r)) ?ws"
    unfolding mg using dist len sk by (intro merge_distinct_keys) simp_all
  have same: "\<forall>r1 \<in> set merged. \<forall>r2 \<in> set merged.
                lookup_key r1 = lookup_key r2 \<longrightarrow> july_temps r1 = july_temps r2"
    unfolding m by (auto simp: add_july_temps_sel)
  have sampled: "\<forall>r \<in> set merged.
      unpacked_temp open_file (longitude r, decimallatitude r) (stackID_july r) = Inr (july_temps r)"
  proof
    fix r assume "r \<in> set merged"
    then obtain w where w: "w \<in> set ?ws" and r: "r = add_july_temps w (?t w)"
      unfolding m by auto
    from w sk have "lookup_key w \<in> set ?keys" by blast
    then obtain i where i: "i < length ?keys" and ki: "?keys ! i = lookup_key w"
      by (auto simp: in_set_conv_nth)
    from len dist i have "map_of (zip ?keys temps) (?keys ! i) = Some (temps ! i)"
      by (intro map_of_zip_nth) simp_all
    then have t: "?t w = temps ! i" by (simp add: ki)
    from g have "temps_loop open_file (map (\<lambda>k. (fst k, fst (snd k))) ?keys)
        (map (\<lambda>k. snd (snd k)) ?keys) [] = Inr temps"
      by (simp add: get_temps_list_def)
    from temps_loop_Inr [OF this] i
    have "unpacked_temp open_file (map (\<lambda>k. (fst k, fst (snd k))) ?keys ! i)
        (map (\<lambda>k. snd (snd k)) ?keys ! i) = Inr (temps ! i)" by simp
    with i have "unpacked_temp open_file (fst (?keys ! i), fst (snd (?keys ! i))) (snd (snd (?keys ! i)))
        = Inr (temps ! i)" by simp
    then have "unpacked_temp open_file (longitude w, decimallatitude w) (stackID_july w) = Inr (?t w)"
      unfolding ki t by (simp add: lookup_key_def)
    then show "unpacked_temp open_file (longitude r, decimallatitude r) (stackID_july r) = Inr (july_temps r)"
      unfolding r by (simp add: add_july_temps_sel)
  qed
  from dist sk g len m same sampled show ?thesis by blast
qed


theorem temp_lookup_key_sampled_once_witness:
  "temp_data example_raster example_individual_data =
     Inr (example_stats_data @ [add_july_temps (add_stackID_july example_missing 7) 32768])
   \<and> length example_individual_data = 31
   \<and> temp_lookup_keys (map (\<lambda>r. add_stackID_july r (get_stackID (year r) 22793)) example_individual_data)
       = [(1 / 2, 3 / 2, 7), (3 / 2, 1 / 2, 7)]
   \<and> get_temps_list example_raster [(1 / 2, 3 / 2), (3 / 2, 1 / 2)] [7, 7] = Inr [6, 32768]
   \<and> lookup_key (example_stats_data ! 0) = lookup_key (example_stats_data ! 29)
   \<and> july_temps (example_stats_data ! 0) = july_temps (example_stats_data ! 29)
   \<and> unpacked_temp example_raster (1 / 2, 3 / 2) 7 = Inr (july_temps (example_stats_data ! 0))"
proof -
  let ?merged = "example_stats_data @ [add_july_temps (add_stackID_july example_missing 7) 32768]"
  from temp_lookup_key_sampled_once [OF example_temp_data]
  have same: "\<forall>r1 \<in> set ?merged. \<forall>r2 \<in> set ?merged.
                lookup_key r1 = lookup_key r2 \<longrightarrow> july_temps r1 = july_temps r2"
    and sampled: "\<forall>r \<in> set ?merged.
        unpacked_temp example_raster (longitude r, decimallatitude r) (stackID_july r) = Inr (july_temps r)"
    by blast+
  have len: "length example_stats_data = 30" by (simp add: example_stats_data_def)
  have e0: "example_stats_data ! 0 = add_july_temps (add_stackID_july (example_specimen ''Parus major'' 0) 7) 6"
    and e29: "example_stats_data ! 29 = add_july_temps (add_stackID_july (example_specimen ''Parus major'' 29) 7) 6"
    by (simp_all add: example_stats_data_def)
  have k: "lookup_key (example_stats_data ! 0) = lookup_key (example_stats_data ! 29)"
    unfolding e0 e29 by (simp add: add_july_temps_sel example_lookup_key)
  have in0: "example_stats_data ! 0 \<in> set ?merged" and in29: "example_stats_data ! 29 \<in> set ?merged"
    using len by simp_all
  from same in0 in29 k have j: "july_temps (example_stats_data ! 0) = july_temps (example_stats_data ! 29)"
    by blast
  have sel: "longitude (example_stats_data ! 0) = 1 / 2"
    "decimallatitude (example_stats_data ! 0) = 3 / 2"
    "stackID_july (example_stats_data ! 0) = 7"
    unfolding e0 by (simp_all add: add_july_temps_def add_stackID_july_def example_specimen_def)
  from sampled in0
  have "unpacked_temp example_raster (longitude (example_stats_data ! 0), decimallatitude (example_stats_data ! 0))
          (stackID_july (example_stats_data ! 0)) = Inr (july_temps (example_stats_data ! 0))"
    by blast
  then have u: "unpacked_temp example_raster (1 / 2, 3 / 2) 7 = Inr (july_temps (example_stats_data ! 0))"
    by (simp only: sel)
  have "length example_individual_data = 31" by (simp add: example_individual_data_def)
  with k j u show ?thesis
    by (simp only: example_temp_data example_temp_lookup_keys example_get_temps_list simp_thms)
qed

section \<open>Properties of the regression loop\<close>

lemma species_summary_species:
  "species_summary ols species species_data = Inr s \<Longrightarrow> genus_species s = species"
  by (auto simp: species_summary_def Let_def split: list.splits sum.splits)

lemma lin_reg_loop_Inr:
  "lin_reg_loop ols groups acc = Inr stats \<Longrightarrow>
   \<exists>new. stats = acc @ new \<and> length new = length groups \<and>
     (\<forall>i < length groups. species_summary ols (fst (groups ! i)) (snd (groups ! i)) = Inr (new ! i))"
proof (induction ols groups acc arbitrary: stats rule: lin_reg_loop.induct)
  case (1 ols stats_list)
  then show ?case by simp
next
  case (2 ols species species_data groups stats_list)
  from "2.prems" obtain s where s: "species_summary ols species species_data = Inr s"
    and rest: "lin_reg_loop ols groups (stats_list @ [s]) = Inr stats"
    by (auto split: sum.splits)
  from "2.IH" [OF s rest] obtain new where new: "stats = (stats_list @ [s]) @ new"
    "length new = length groups"
    "\<forall>i < length groups. species_summary ols (fst (groups ! i)) (snd (groups ! i)) = Inr (new ! i)"
    by blast
  have "\<forall>i < length ((species, species_data) # groups).
      species_summary ols (fst (((species, species_data) # groups) ! i))
        (snd (((species, species_data) # groups) ! i)) = Inr ((s # new) ! i)"
  proof (intro allI impI)
    fix i assume "i < length ((species, species_data) # groups)"
    then show "species_summary ols (fst (((species, species_data) # groups) ! i))
        (snd (((species, species_data) # groups) ! i)) = Inr ((s # new) ! i)"
      using s new(3) by (cases i) simp_all
  qed
  moreover have "stats = stats_list @ (s # new)" using new(1) by simp
  moreover have "length (s # new) = length ((species, species_data) # groups)" using new(2) by simp
  ultimately show ?case by blast
qed

lemma lin_reg_Inr:
  assumes "lin_reg ols dataset = Inr stats"
  shows "length stats = length (groupby clean_genus_species dataset)"
    and "\<forall>i < length (groupby clean_genus_species dataset).
           species_summary ols (fst (groupby clean_genus_species dataset ! i))
             (snd (groupby clean_genus_species dataset ! i)) = Inr (stats ! i)"
  using lin_reg_loop_Inr [of ols "groupby clean_genus_species dataset" "[]" stats] assms
  by (auto simp: lin_reg_def)

lemma lin_reg_species:
  assumes "lin_reg ols dataset = Inr stats"
  shows "map genus_species stats = map fst (groupby clean_genus_species dataset)"
proof (rule nth_equalityI)
  show "length (map genus_species stats) = length (map fst (groupby clean_genus_species dataset))"
    using lin_reg_Inr(1) [OF assms] by simp
next
  fix i assume "i < length (map genus_species stats)"
  then have i: "i < length (groupby clean_genus_species dataset)"
    using lin_reg_Inr(1) [OF assms] by simp
  with lin_reg_Inr(2) [OF assms] have "species_summary ols (fst (groupby clean_genus_species dataset ! i))
             (snd (groupby clean_genus_species dataset ! i)) = Inr (stats ! i)" by blast
  from species_summary_species [OF this] i lin_reg_Inr(1) [OF assms]
  show "map genus_species stats ! i = map fst (groupby clean_genus_species dataset) ! i" by simp
qed

lemma groupby_nonempty:
  "(k, g) \<in> set (groupby col dataframe) \<Longrightarrow> g \<noteq> []"
  by (auto simp: groupby_member filter_empty_conv)

lemma drop_duplicates_nonempty: "xs \<noteq> [] \<Longrightarrow> drop_duplicates xs \<noteq> []"
  by (cases xs) simp_all

text \<open>
  Claim C7, as amended. The regression loop makes no check on the number of distinct
  temperature or latitude values of a group. For every group it is given, degenerate or
  not, it calls the fit on the group's points: when both fits return, it records one
  summary for the group with the statistics as the fits returned them, and a run that
  completes has exactly one summary per group; when a fit raises, the exception is not
  caught for the group and the whole run ends with it.
\<close>

theorem lin_reg_has_no_degenerate_guard:
  assumes "(species, species_data) \<in> set (groupby clean_genus_species dataset)"
  shows "(\<forall>stats. lin_reg ols dataset = Inr stats \<longrightarrow>
            map genus_species stats = map fst (groupby clean_genus_species dataset)
            \<and> (\<exists>s \<in> set stats. genus_species s = species
                  \<and> species_summary ols species species_data = Inr s))
       \<and> (\<forall>e. species_summary ols species species_data = Inl e \<longrightarrow> (\<exists>e'. lin_reg ols dataset = Inl e'))
       \<and> (\<forall>e. ols (map (\<lambda>r. (july_temps r, mass r)) species_data) = Inl e
              \<longrightarrow> species_summary ols species species_data = Inl e)
       \<and> (\<forall>t e. ols (map (\<lambda>r. (july_temps r, mass r)) species_data) = Inr t
              \<and> ols (map (\<lambda>r. (\<bar>decimallatitude r\<bar>, mass r)) species_data) = Inl e
              \<longrightarrow> species_summary ols species species_data = Inl e)
       \<and> (\<forall>t l. ols (map (\<lambda>r. (july_temps r, mass r)) species_data) = Inr t
              \<and> ols (map (\<lambda>r. (\<bar>decimallatitude r\<bar>, mass r)) species_data) = Inr l
              \<longrightarrow> (\<exists>s. species_summary ols species species_data = Inr s
                     \<and> temp_r_squared s = rsquared t \<and> temp_slope s = snd (params t)
                     \<and> lat_r_squared s = rsquared l \<and> lat_slope s = snd (params l)))"
proof -
  let ?groups = "groupby clean_genus_species dataset"
  from assms obtain i where i: "i < length ?groups" and gi: "?groups ! i = (species, species_data)"
    by (auto simp: in_set_conv_nth)
  have ne: "drop_duplicates (map class_col species_data) \<noteq> []"
    using groupby_nonempty [OF assms] by (intro drop_duplicates_nonempty) simp
  have a: "\<forall>stats. lin_reg ols dataset = Inr stats \<longrightarrow>
            map genus_species stats = map fst ?groups
            \<and> (\<exists>s \<in> set stats. genus_species s = species
                  \<and> species_summary ols species species_data = Inr s)"
  proof (intro allI impI)
    fix stats assume r: "lin_reg ols dataset = Inr stats"
    from lin_reg_Inr [OF r] i gi
    have len: "i < length stats" and s: "species_summary ols species species_data = Inr (stats ! i)"
      by auto
    from len have "stats ! i \<in> set stats" by simp
    with s species_summary_species [OF s] lin_reg_species [OF r]
    show "map genus_species stats = map fst ?groups
            \<and> (\<exists>s \<in> set stats. genus_species s = species
                  \<and> species_summary ols species species_data = Inr s)" by blast
  qed
  have b: "\<forall>e. species_summary ols species species_data = Inl e \<longrightarrow> (\<exists>e'. lin_reg ols dataset = Inl e')"
  proof (intro allI impI)
    fix e assume e: "species_summary ols species species_data = Inl e"
    show "\<exists>e'. lin_reg ols dataset = Inl e'"
    proof (cases "lin_reg ols dataset")
      case (Inl e')
      then show ?thesis by blast
    next
      case (Inr stats)
      from lin_reg_Inr(2) [OF Inr] i gi e show ?thesis by auto
    qed
  qed
  have c: "\<forall>e. ols (map (\<lambda>r. (july_temps r, mass r)) species_data) = Inl e
              \<longrightarrow> species_summary ols species species_data = Inl e"
    using ne by (auto simp: species_summary_def split: list.splits)
  have d: "\<forall>t e. ols (map (\<lambda>r. (july_temps r, mass r)) species_data) = Inr t
              \<and> ols (map (\<lambda>r. (\<bar>decimallatitude r\<bar>, mass r)) species_data) = Inl e
              \<longrightarrow> species_summary ols species species_data = Inl e"
    using ne by (auto simp: species_summary_def Let_def split: list.splits)
  have e: "\<forall>t l. ols (map (\<lambda>r. (july_temps r, mass r)) species_data) = Inr t
              \<and> ols (map (\<lambda>r. (\<bar>decimallatitude r\<bar>, mass r)) species_data) = Inr l
              \<longrightarrow> (\<exists>s. species_summary ols species species_data = Inr s
                     \<and> temp_r_squared s = rsquared t \<and> temp_slope s = snd (params t)
                     \<and> lat_r_squared s = rsquared l \<and> lat_slope s = snd (params l))"
    using ne by (auto simp: species_summary_def Let_def split: list.splits)
  from a b c d e show ?thesis by blast
qed

lemma example_stats_class:
  "drop_duplicates (map class_col example_stats_data) = [''Aves'']"
proof -
  have "map class_col example_stats_data = replicate 30 ''Aves''"
    unfolding example_stats_data_def map_map comp_def
    by (simp add: add_july_temps_def add_stackID_july_def example_specimen_def map_replicate_const)
  then show ?thesis
    using drop_duplicates_replicate_same [of 29 "''Aves''"] by simp
qed

lemma example_stats_mean_latitude:
  "mean (map decimallatitude example_stats_data) = 3 / 2"
proof -
  have "map decimallatitude example_stats_data = replicate 30 (3 / 2)"
    unfolding example_stats_data_def map_map comp_def
    by (simp add: add_july_temps_def add_stackID_july_def example_specimen_def map_replicate_const)
  then show ?thesis
    by (simp add: mean_def sum_list_replicate)
qed

lemma example_stats_unique_rows:
  "length (drop_duplicates (map row_index example_stats_data)) = 30"
proof -
  have "set (map row_index example_stats_data) = int ` {0..<30}"
    unfolding set_map set_example_stats_data image_image by (simp only: example_stats_sel)
  then show ?thesis
    unfolding length_drop_duplicates by (simp add: card_image)
qed

lemma example_species_summary:
  "species_summary ols_returns ''Parus major'' example_stats_data =
     Inr \<lparr>genus_species = ''Parus major'', sp_class = ''Aves'', individuals = 30,
          hemisphere = ''north'', temp_r_squared = 0, temp_slope = 0,
          lat_r_squared = 0, lat_slope = 0\<rparr>"
  by (simp add: species_summary_def example_stats_class example_stats_mean_latitude
      example_stats_unique_rows ols_returns_def example_fit_def)

text \<open>
  The claim as first stated fails on the example group, whose 30 records all have the
  temperature 6 and the latitude 3/2. With a fit that returns, the loop records a summary
  for the group: it neither skips it nor fails with a degenerate-fit error. With a fit
  that raises, the whole run fails.
\<close>

theorem degenerate_group_counterexample:
  "card (july_temps ` set example_stats_data) = 1
   \<and> card ((\<lambda>r. \<bar>decimallatitude r\<bar>) ` set example_stats_data) = 1
   \<and> lin_reg ols_returns example_stats_data =
       Inr [\<lparr>genus_species = ''Parus major'', sp_class = ''Aves'', individuals = 30,
             hemisphere = ''north'', temp_r_squared = 0, temp_slope = 0,
             lat_r_squared = 0, lat_slope = 0\<rparr>]
   \<and> lin_reg ols_raises example_stats_data = Inl FitError"
proof -
  have "july_temps ` set example_stats_data = {6}"
    unfolding set_example_stats_data image_image
    by (simp only: example_stats_sel image_constant_conv) simp
  then have a: "card (july_temps ` set example_stats_data) = 1" by simp
  have "(\<lambda>r. \<bar>decimallatitude r\<bar>) ` set example_stats_data = {3 / 2}"
    unfolding set_example_stats_data image_image
    by (simp add: add_july_temps_def add_stackID_july_def example_specimen_def image_constant_conv)
  then have b: "card ((\<lambda>r. \<bar>decimallatitude r\<bar>) ` set example_stats_data) = 1" by simp
  have c: "lin_reg ols_returns example_stats_data =
       Inr [\<lparr>genus_species = ''Parus major'', sp_class = ''Aves'', individuals = 30,
             hemisphere = ''north'', temp_r_squared = 0, temp_slope = 0,
             lat_r_squared = 0, lat_slope = 0\<rparr>]"
    by (simp add: lin_reg_def example_groupby example_species_summary)
  have "species_summary ols_raises ''Parus major'' example_stats_data = Inl FitError"
    by (simp add: species_summary_def example_stats_class ols_raises_def)
  then have d: "lin_reg ols_raises example_stats_data = Inl FitError"
    by (simp add: lin_reg_def example_groupby)
  from a b c d show ?thesis by blast
qed

theorem lin_reg_has_no_degenerate_guard_witness:
  "(''Parus major'', example_stats_data) \<in> set (groupby clean_genus_species example_stats_data)
   \<and> ols_returns (map (\<lambda>r. (july_temps r, mass r)) example_stats_data) = Inr example_fit
   \<and> ols_returns (map (\<lambda>r. (\<bar>decimallatitude r\<bar>, mass r)) example_stats_data) = Inr example_fit
   \<and> (\<exists>s. species_summary ols_returns ''Parus major'' example_stats_data = Inr s
          \<and> temp_r_squared s = rsquared example_fit \<and> temp_slope s = snd (params example_fit)
          \<and> lat_r_squared s = rsquared example_fit \<and> lat_slope s = snd (params example_fit))
   \<and> (\<exists>stats. lin_reg ols_returns example_stats_data = Inr stats
          \<and> map genus_species stats = [''Parus major''])"
proof -
  have g: "(''Parus major'', example_stats_data) \<in> set (groupby clean_genus_species example_stats_data)"
    by (simp add: example_groupby)
  have t: "ols_returns (map (\<lambda>r. (july_temps r, mass r)) example_stats_data) = Inr example_fit"
    and l: "ols_returns (map (\<lambda>r. (\<bar>decimallatitude r\<bar>, mass r)) example_stats_data) = Inr example_fit"
    by (simp_all add: ols_returns_def)
  note th = lin_reg_has_no_degenerate_guard [OF g, of ols_returns]
  note th_run = th [THEN conjunct1, rule_format]
  note th_fit = th [THEN conjunct2, THEN conjunct2, THEN conjunct2, THEN conjunct2, rule_format]
  from t l have s: "\<exists>s. species_summary ols_returns ''Parus major'' example_stats_data = Inr s
          \<and> temp_r_squared s = rsquared example_fit \<and> temp_slope s = snd (params example_fit)
          \<and> lat_r_squared s = rsquared example_fit \<and> lat_slope s = snd (params example_fit)"
    by (intro th_fit conjI)
  obtain stats where r: "lin_reg ols_returns example_stats_data = Inr stats"
    by (simp add: lin_reg_def example_groupby example_species_summary)
  from th_run [OF r]
  have "map genus_species stats = map fst (groupby clean_genus_species example_stats_data)"
    by (rule conjunct1)
  then have "map genus_species stats = [''Parus major'']" by (simp add: example_groupby)
  with r have last: "\<exists>stats. lin_reg ols_returns example_stats_data = Inr stats
          \<and> map genus_species stats = [''Parus major'']" by (intro exI [of _ stats] conjI)
  show ?thesis by (intro conjI g t l s last)
qed

end
